theory Spec2Isabelle
  imports Complex_Main
begin

section \<open>Data model of \<^verbatim>\<open>backend/app.py\<close>\<close>

text \<open>
  The wind aggregation backend is a single Python module. Its functions are embedded
  one by one, under their own names. Every exception the interpreter or the standard
  library can raise inside these functions is a value of \<open>py_error\<close>, and a function
  that can raise returns \<open>py_error + 'a\<close>.
\<close>

datatype py_error =
  ValueError | TypeError | KeyError | OverflowError | ZeroDivisionError | RequestException

subsection \<open>Strings and numbers\<close>

text \<open>
  A Python string is a sequence of Unicode code points. \<open>ustr\<close> writes an ASCII string
  as such a sequence, \<open>cp\<close> a single character.
\<close>

type_synonym py_str = "nat list"

abbreviation cp :: "char \<Rightarrow> nat" where
  "cp c \<equiv> of_char c"

definition ustr :: "string \<Rightarrow> py_str" where
  "ustr s = map of_char s"

text \<open>
  A JSON number is read as an integer of any size or as a float. Floats are modelled as
  reals: rounding, infinities and NaN are not modelled. The product of a number and a
  float is a float. An integer is converted first, and the conversion raises
  \<^verbatim>\<open>OverflowError\<close> when the integer rounds to \<open>2 ^ 1024\<close> or beyond, that is from
  \<open>2 ^ 1024 - 2 ^ 970\<close> on. The product of two floats never raises.
\<close>

datatype py_num = PyInt int | PyFloat real

fun num_val :: "py_num \<Rightarrow> real" where
  "num_val (PyInt n) = real_of_int n"
| "num_val (PyFloat x) = x"

fun fits_float :: "py_num \<Rightarrow> bool" where
  "fits_float (PyInt n) = (\<bar>n\<bar> < 2 ^ 1024 - 2 ^ 970)"
| "fits_float (PyFloat x) = True"

definition py_mul :: "py_num \<Rightarrow> real \<Rightarrow> py_error + py_num" where
  "py_mul v m = (if fits_float v then Inr (PyFloat (num_val v * m)) else Inl OverflowError)"

subsection \<open>\<^verbatim>\<open>datetime\<close> and \<^verbatim>\<open>timedelta\<close>\<close>

text \<open>
  A \<^verbatim>\<open>datetime\<close> stores wall-clock fields; here they are the number of microseconds
  since 0001-01-01T00:00:00. A naive value has no time zone, an aware value carries its
  UTC offset in microseconds. The fields of every value lie in the years 1 to 9999, that
  is below \<open>max_local\<close>; arithmetic that leaves the range raises \<^verbatim>\<open>OverflowError\<close>.
\<close>

datatype datetime = Naive int | Aware int int

definition max_local :: int where
  "max_local = 3652059 * 86400000000"

text \<open>
  Ordering comparisons of two naive values compare the fields, of two aware values the
  UTC instants; a naive value against an aware one raises \<^verbatim>\<open>TypeError\<close>.
\<close>

fun dt_le :: "datetime \<Rightarrow> datetime \<Rightarrow> py_error + bool" where
  "dt_le (Naive a) (Naive b) = Inr (a \<le> b)"
| "dt_le (Aware a oa) (Aware b ob) = Inr (a - oa \<le> b - ob)"
| "dt_le (Naive a) (Aware b ob) = Inl TypeError"
| "dt_le (Aware a oa) (Naive b) = Inl TypeError"

fun dt_lt :: "datetime \<Rightarrow> datetime \<Rightarrow> py_error + bool" where
  "dt_lt (Naive a) (Naive b) = Inr (a < b)"
| "dt_lt (Aware a oa) (Aware b ob) = Inr (a - oa < b - ob)"
| "dt_lt (Naive a) (Aware b ob) = Inl TypeError"
| "dt_lt (Aware a oa) (Naive b) = Inl TypeError"

text \<open>
  \<^verbatim>\<open>timedelta(days=, hours=, minutes=, seconds=)\<close> on non-negative integers: the value
  is a number of microseconds; more than 999999999 days raise \<^verbatim>\<open>OverflowError\<close>.
\<close>

definition timedelta :: "nat \<Rightarrow> nat \<Rightarrow> nat \<Rightarrow> nat \<Rightarrow> py_error + int" where
  "timedelta days hours minutes seconds =
     (let us = (int days * 86400 + int hours * 3600 + int minutes * 60 + int seconds) * 1000000
      in if us div 86400000000 > 999999999 then Inl OverflowError else Inr us)"

text \<open>\<^verbatim>\<open>datetime + timedelta\<close> keeps the time zone and raises outside the years 1 to 9999.\<close>

fun dt_add :: "datetime \<Rightarrow> int \<Rightarrow> py_error + datetime" where
  "dt_add (Naive t) d =
     (if t + d < 0 \<or> max_local \<le> t + d then Inl OverflowError else Inr (Naive (t + d)))"
| "dt_add (Aware t off) d =
     (if t + d < 0 \<or> max_local \<le> t + d then Inl OverflowError else Inr (Aware (t + d) off))"

subsection \<open>The standard library\<close>

text \<open>
  Three things belong to the interpreter and not to this module, and are parameters of
  the functions that depend on them: \<^verbatim>\<open>datetime.fromisoformat\<close>, where \<open>None\<close> stands
  for \<^verbatim>\<open>ValueError\<close>; the Unicode database, which gives the value of a decimal digit
  and \<open>None\<close> for every other character, and so decides what \<^verbatim>\<open>\d\<close> matches and what
  \<^verbatim>\<open>int\<close> reads; and the limit on the number of digits that \<^verbatim>\<open>int\<close> converts, 4300
  unless configured otherwise, where 0 is no limit.
\<close>

record py_lib =
  fromisoformat :: "py_str \<Rightarrow> datetime option"
  decimal_digit :: "nat \<Rightarrow> nat option"
  int_max_str_digits :: nat

subsection \<open>The duration pattern \<^verbatim>\<open>VALID_TIME_DURATION\<close>\<close>

text \<open>
  \<^verbatim>\<open>P(?:(?P<days>\d+)D)?(?:T(?:(?P<hours>\d+)H)?(?:(?P<minutes>\d+)M)?(?:(?P<seconds>\d+)S)?)?\<close>

  Each optional group is a non-empty run of digits followed by its letter. No letter of
  the pattern is a digit, and a run of digits that is not followed by the letter cannot
  be matched by anything else in the pattern, so matching is deterministic:
  \<open>opt_field\<close> takes the longest run of digits and the letter, or nothing.
  \<open>fullmatch\<close> returns the four groups, each the matched digits or \<open>None\<close>.
\<close>

definition is_digit :: "py_lib \<Rightarrow> nat \<Rightarrow> bool" where
  "is_digit lib c = (decimal_digit lib c \<noteq> None)"

definition opt_field :: "py_lib \<Rightarrow> char \<Rightarrow> py_str \<Rightarrow> py_str option \<times> py_str" where
  "opt_field lib letter s =
     (let ds = takeWhile (is_digit lib) s; r = dropWhile (is_digit lib) s
      in if ds \<noteq> [] \<and> r \<noteq> [] \<and> hd r = cp letter then (Some ds, tl r) else (None, s))"

type_synonym duration_groups = "py_str option \<times> py_str option \<times> py_str option \<times> py_str option"

definition duration_time_part :: "py_lib \<Rightarrow> py_str option \<Rightarrow> py_str \<Rightarrow> duration_groups option" where
  "duration_time_part lib days s =
     (let (hours, r1) = opt_field lib CHR ''H'' s;
          (minutes, r2) = opt_field lib CHR ''M'' r1;
          (seconds, r3) = opt_field lib CHR ''S'' r2
      in if r3 = [] then Some (days, hours, minutes, seconds) else None)"

definition VALID_TIME_DURATION_fullmatch :: "py_lib \<Rightarrow> py_str \<Rightarrow> duration_groups option" where
  "VALID_TIME_DURATION_fullmatch lib s =
     (case s of
        [] \<Rightarrow> None
      | c # r0 \<Rightarrow>
          if c \<noteq> cp CHR ''P'' then None
          else (let (days, r1) = opt_field lib CHR ''D'' r0
                in (case r1 of
                      [] \<Rightarrow> Some (days, None, None, None)
                    | t # r2 \<Rightarrow>
                        if t = cp CHR ''T'' then duration_time_part lib days r2 else None)))"

text \<open>
  \<^verbatim>\<open>int(value)\<close> on a run of decimal digits: \<^verbatim>\<open>ValueError\<close> when the run is longer
  than the limit, its value otherwise.
\<close>

definition digit_val :: "py_lib \<Rightarrow> nat \<Rightarrow> nat" where
  "digit_val lib c = (case decimal_digit lib c of None \<Rightarrow> 0 | Some d \<Rightarrow> d)"

definition py_int :: "py_lib \<Rightarrow> py_str \<Rightarrow> py_error + nat" where
  "py_int lib ds =
     (if 0 < int_max_str_digits lib \<and> int_max_str_digits lib < length ds then Inl ValueError
      else Inr (foldl (\<lambda>n c. 10 * n + digit_val lib c) 0 ds))"

text \<open>\<^verbatim>\<open>int(value) if value else 0\<close>: an unmatched group and an empty string give 0.\<close>

definition part :: "py_lib \<Rightarrow> py_str option \<Rightarrow> py_error + nat" where
  "part lib v = (case v of None \<Rightarrow> Inr 0 | Some ds \<Rightarrow> if ds = [] then Inr 0 else py_int lib ds)"

text \<open>
  Lines 54 to 60 of the source: the groups become integers, in the order of the groups,
  and go to \<^verbatim>\<open>timedelta\<close>.
\<close>

fun decoded_duration :: "py_lib \<Rightarrow> duration_groups \<Rightarrow> py_error + int" where
  "decoded_duration lib (days, hours, minutes, seconds) =
     (case part lib days of
        Inl e \<Rightarrow> Inl e
      | Inr d \<Rightarrow>
          (case part lib hours of
             Inl e \<Rightarrow> Inl e
           | Inr h \<Rightarrow>
               (case part lib minutes of
                  Inl e \<Rightarrow> Inl e
                | Inr m \<Rightarrow>
                    (case part lib seconds of
                       Inl e \<Rightarrow> Inl e
                     | Inr s \<Rightarrow> timedelta d h m s))))"

subsection \<open>\<^verbatim>\<open>parse_valid_time\<close>\<close>

text \<open>\<^verbatim>\<open>s.split("/", 1)\<close> on a string that contains a slash.\<close>

definition split_slash :: "py_str \<Rightarrow> py_str \<times> py_str" where
  "split_slash s =
     (takeWhile (\<lambda>c. c \<noteq> cp CHR ''/'') s, tl (dropWhile (\<lambda>c. c \<noteq> cp CHR ''/'') s))"

text \<open>\<^verbatim>\<open>s.replace("Z", "+00:00")\<close> replaces every \<^verbatim>\<open>Z\<close>.\<close>

definition replace_Z :: "py_str \<Rightarrow> py_str" where
  "replace_Z s = concat (map (\<lambda>c. if c = cp CHR ''Z'' then ustr ''+00:00'' else [c]) s)"

text \<open>
  The result is the pair the source returns, or the exception that leaves the function:
  only the \<^verbatim>\<open>ValueError\<close> of \<^verbatim>\<open>fromisoformat\<close> is caught.
\<close>

definition parse_valid_time ::
  "py_lib \<Rightarrow> py_str \<Rightarrow> py_error + (datetime option \<times> datetime option)" where
  "parse_valid_time lib valid_time =
     (if valid_time = [] \<or> cp CHR ''/'' \<notin> set valid_time then Inr (None, None)
      else
        (let (start_str, duration_str) = split_slash valid_time
         in (case fromisoformat lib (replace_Z start_str) of
               None \<Rightarrow> Inr (None, None)
             | Some start_dt \<Rightarrow>
                 (case VALID_TIME_DURATION_fullmatch lib duration_str of
                    None \<Rightarrow> Inr (Some start_dt, None)
                  | Some groups \<Rightarrow>
                      (case decoded_duration lib groups of
                         Inl e \<Rightarrow> Inl e
                       | Inr duration_delta \<Rightarrow>
                           if duration_delta = 0 then Inr (None, None)
                           else (case dt_add start_dt duration_delta of
                                   Inl e \<Rightarrow> Inl e
                                 | Inr end_dt \<Rightarrow> Inr (Some start_dt, Some end_dt)))))))"

subsection \<open>\<^verbatim>\<open>find_current_value\<close>\<close>

text \<open>
  An entry of a time series is a JSON object with the keys \<^verbatim>\<open>validTime\<close> and
  \<^verbatim>\<open>value\<close>; a key may be missing, and \<^verbatim>\<open>value\<close> may be null. Documents are
  modelled at their schema types: a field can be absent, it cannot hold a value of
  another JSON type.
\<close>

record entry =
  validTime :: "py_str option"
  entry_value :: "py_num option"

text \<open>\<^verbatim>\<open>item.get('validTime', '')\<close>\<close>

definition get_validTime :: "entry \<Rightarrow> py_str" where
  "get_validTime item = (case validTime item of None \<Rightarrow> [] | Some s \<Rightarrow> s)"

text \<open>
  The loop of \<^verbatim>\<open>find_current_value\<close>; \<open>now\<close> is the variable of the enclosing
  function. \<^verbatim>\<open>start_dt <= now < end_dt\<close> is \<^verbatim>\<open>start_dt <= now and now < end_dt\<close>.
  The result \<open>None\<close> is Python's \<^verbatim>\<open>None\<close>, returned for a null value and at the end
  of the loop alike.
\<close>

fun find_current_value :: "py_lib \<Rightarrow> datetime \<Rightarrow> entry list \<Rightarrow> py_error + py_num option" where
  "find_current_value lib now [] = Inr None"
| "find_current_value lib now (item # values) =
     (case parse_valid_time lib (get_validTime item) of
        Inl e \<Rightarrow> Inl e
      | Inr (None, _) \<Rightarrow> find_current_value lib now values
      | Inr (Some start_dt, None) \<Rightarrow> find_current_value lib now values
      | Inr (Some start_dt, Some end_dt) \<Rightarrow>
          (case dt_le start_dt now of
             Inl e \<Rightarrow> Inl e
           | Inr False \<Rightarrow> find_current_value lib now values
           | Inr True \<Rightarrow>
               (case dt_lt now end_dt of
                  Inl e \<Rightarrow> Inl e
                | Inr False \<Rightarrow> find_current_value lib now values
                | Inr True \<Rightarrow> Inr (entry_value item))))"

subsection \<open>\<^verbatim>\<open>to_knots\<close>\<close>

definition unit_multipliers :: "py_str \<rightharpoonup> real" where
  "unit_multipliers = map_of
     [(ustr ''wmoUnit:km_h-1'', 0.539957),
      (ustr ''wmoUnit:m_s-1'', 1.94384),
      (ustr ''wmoUnit:knot'', 1.0),
      (ustr ''unit:km_h'', 0.539957),
      (ustr ''unit:m_s'', 1.94384),
      (ustr ''unit:kt'', 1.0)]"

text \<open>\<^verbatim>\<open>d.get(key)\<close> where the key may be \<^verbatim>\<open>None\<close>, which is no key of the dictionary.\<close>

definition dict_get :: "(py_str \<rightharpoonup> 'a) \<Rightarrow> py_str option \<Rightarrow> 'a option" where
  "dict_get d key = (case key of None \<Rightarrow> None | Some k \<Rightarrow> d k)"

text \<open>The product of line 87 can raise, and then \<^verbatim>\<open>to_knots\<close> raises.\<close>

definition to_knots :: "py_num option \<Rightarrow> py_str option \<Rightarrow> py_error + py_num option" where
  "to_knots speed_value unit_code =
     (case speed_value of
        None \<Rightarrow> Inr None
      | Some v \<Rightarrow>
          (case dict_get unit_multipliers unit_code of
             None \<Rightarrow> Inr (Some v)
           | Some multiplier \<Rightarrow>
               (case py_mul v multiplier of
                  Inl e \<Rightarrow> Inl e
                | Inr knots \<Rightarrow> Inr (Some knots))))"

subsection \<open>\<^verbatim>\<open>create_ocean_grid\<close>\<close>

record bounds =
  north :: real
  south :: real
  west :: real
  east :: real

definition EAST_COAST_BOUNDS :: bounds where
  "EAST_COAST_BOUNDS = \<lparr>north = 45.0, south = 24.0, west = - 82.0, east = - 65.0\<rparr>"

text \<open>
  Float division raises \<^verbatim>\<open>ZeroDivisionError\<close> on a zero divisor. The cosine is the
  real one. On the latitudes of the grid, 24 to 45 degrees, the real and the float cosine
  are both positive, which is all the loops need. At 90 degrees they differ: the real
  cosine is 0, the float cosine of \<^verbatim>\<open>math.radians(90)\<close> is about 6.1e-17, so nothing
  is stated about \<^verbatim>\<open>km_to_deg_lon\<close> at the poles.
\<close>

definition py_div :: "real \<Rightarrow> real \<Rightarrow> py_error + real" where
  "py_div a b = (if b = 0 then Inl ZeroDivisionError else Inr (a / b))"

definition radians :: "real \<Rightarrow> real" where
  "radians x = x * (pi / 180)"

definition km_to_deg_lat :: "real \<Rightarrow> py_error + real" where
  "km_to_deg_lat km = py_div km 111.32"

definition km_to_deg_lon :: "real \<Rightarrow> real \<Rightarrow> py_error + real" where
  "km_to_deg_lon km lat = py_div km (111.32 * cos (radians lat))"

text \<open>
  The two \<^verbatim>\<open>while\<close> loops. Nothing in the loops bounds the number of iterations, so
  they are partial functions: \<open>None\<close> is a loop that does not end. \<open>points\<close> is the list
  the source appends to.
\<close>

partial_function (option) lon_loop ::
  "real \<Rightarrow> real \<Rightarrow> real \<Rightarrow> (real \<times> real) list \<Rightarrow> (real \<times> real) list option" where
  "lon_loop current_lat lon_step current_lon points =
     (if current_lon \<le> east EAST_COAST_BOUNDS
      then lon_loop current_lat lon_step (current_lon + lon_step)
             (if current_lon < - 75.0 \<or> (current_lat > 35.0 \<and> current_lon < - 70.0)
              then points @ [(current_lat, current_lon)] else points)
      else Some points)"

partial_function (option) lat_loop ::
  "real \<Rightarrow> real \<Rightarrow> (real \<times> real) list \<Rightarrow> (py_error + (real \<times> real) list) option" where
  "lat_loop lat_step current_lat points =
     (if current_lat \<le> north EAST_COAST_BOUNDS
      then (case km_to_deg_lon 10 current_lat of
              Inl e \<Rightarrow> Some (Inl e)
            | Inr lon_step \<Rightarrow>
                (case lon_loop current_lat lon_step (west EAST_COAST_BOUNDS) points of
                   None \<Rightarrow> None
                 | Some points' \<Rightarrow> lat_loop lat_step (current_lat + lat_step) points'))
      else Some (Inr points))"

definition create_ocean_grid :: "(py_error + (real \<times> real) list) option" where
  "create_ocean_grid =
     (case km_to_deg_lat 10 of
        Inl e \<Rightarrow> Some (Inl e)
      | Inr lat_step \<Rightarrow> lat_loop lat_step (south EAST_COAST_BOUNDS) [])"

text \<open>The test of line 104, under a name for the statements about the grid.\<close>

definition in_ocean :: "real \<Rightarrow> real \<Rightarrow> bool" where
  "in_ocean lat lon = (lon < - 75.0 \<or> (lat > 35.0 \<and> lon < - 70.0))"

subsection \<open>\<^verbatim>\<open>get_wind_data\<close>\<close>

text \<open>
  The weather service is outside the module. A request is one call of
  \<^verbatim>\<open>requests.get\<close>: the points lookup of a coordinate (its URL is built from the
  coordinate) or the lookup of a grid URL. The state of a run is the list of the requests
  made so far. What the service answers, and what the clock shows, may depend on all that
  happened before, so both are functions of that list: \<open>Inl\<close> is the exception
  \<^verbatim>\<open>requests.get\<close> raises (a timeout, a refused connection), \<open>Inr\<close> a response with
  its status code and its JSON document, \<open>None\<close> where the body is no JSON and
  \<^verbatim>\<open>response.json()\<close> raises.
\<close>

datatype request = PointsGet real real | GridGet py_str

record 'a response =
  status_code :: int
  json :: "'a option"

record points_properties =
  forecastGridData :: "py_str option"

record points_doc =
  points_props :: "points_properties option"

record series =
  series_values :: "entry list option"
  uom :: "py_str option"

record grid_properties =
  windSpeed :: "series option"
  windDirection :: "series option"

record grid_doc =
  grid_props :: "grid_properties option"

record provider =
  points_api :: "request list \<Rightarrow> real \<Rightarrow> real \<Rightarrow> py_error + points_doc response"
  grid_api :: "request list \<Rightarrow> py_str \<Rightarrow> py_error + grid_doc response"
  clock :: "request list \<Rightarrow> int"

record wind_data =
  speed_kt :: "py_num option"
  direction :: "py_num option"
  wd_lat :: real
  wd_lon :: real

text \<open>\<^verbatim>\<open>d[key]\<close> raises \<^verbatim>\<open>KeyError\<close> for a missing key.\<close>

definition subscript :: "'a option \<Rightarrow> py_error + 'a" where
  "subscript field = (case field of None \<Rightarrow> Inl KeyError | Some v \<Rightarrow> Inr v)"

text \<open>\<^verbatim>\<open>response.json()\<close> raises a \<^verbatim>\<open>ValueError\<close> when the body is no JSON.\<close>

definition response_json :: "'a response \<Rightarrow> py_error + 'a" where
  "response_json r = (case json r of None \<Rightarrow> Inl ValueError | Some d \<Rightarrow> Inr d)"

text \<open>
  \<^verbatim>\<open>properties.get('windSpeed', {}).get('values', [])\<close> and
  \<^verbatim>\<open>properties.get('windSpeed', {}).get('uom')\<close>
\<close>

definition get_values :: "series option \<Rightarrow> entry list" where
  "get_values s = (case s of None \<Rightarrow> [] | Some x \<Rightarrow> (case series_values x of None \<Rightarrow> [] | Some vs \<Rightarrow> vs))"

definition get_uom :: "series option \<Rightarrow> py_str option" where
  "get_uom s = (case s of None \<Rightarrow> None | Some x \<Rightarrow> uom x)"

text \<open>
  The body of the \<^verbatim>\<open>try\<close> block, in the order of the source. \<open>Inr None\<close> is an early
  \<^verbatim>\<open>return None\<close>, \<open>Inl e\<close> an exception raised inside the block. Lines 117 to 124
  are \<open>grid_url_of\<close>, lines 128 to 157 are \<open>wind_of_grid\<close>.
\<close>

definition grid_url_of :: "points_doc response \<Rightarrow> py_error + py_str option" where
  "grid_url_of response =
     (if status_code response \<noteq> 200 then Inr None
      else (case response_json response of
              Inl e \<Rightarrow> Inl e
            | Inr points_data \<Rightarrow>
                (case subscript (points_props points_data) of
                   Inl e \<Rightarrow> Inl e
                 | Inr props \<Rightarrow>
                     (case subscript (forecastGridData props) of
                        Inl e \<Rightarrow> Inl e
                      | Inr grid_url \<Rightarrow> Inr (Some grid_url)))))"

definition wind_of_grid ::
  "py_lib \<Rightarrow> int \<Rightarrow> real \<Rightarrow> real \<Rightarrow> grid_doc response \<Rightarrow> py_error + wind_data option" where
  "wind_of_grid lib utc_now lat lon grid_response =
     (if status_code grid_response \<noteq> 200 then Inr None
      else (case response_json grid_response of
              Inl e \<Rightarrow> Inl e
            | Inr grid_data \<Rightarrow>
                (case subscript (grid_props grid_data) of
                   Inl e \<Rightarrow> Inl e
                 | Inr properties \<Rightarrow>
                     (let now = Aware utc_now 0
                      in (case find_current_value lib now (get_values (windSpeed properties)) of
                            Inl e \<Rightarrow> Inl e
                          | Inr wind_speed_value \<Rightarrow>
                              (let wind_speed_uom = get_uom (windSpeed properties)
                               in (case find_current_value lib now
                                          (get_values (windDirection properties)) of
                                     Inl e \<Rightarrow> Inl e
                                   | Inr wind_direction \<Rightarrow>
                                       (case to_knots wind_speed_value wind_speed_uom of
                                          Inl e \<Rightarrow> Inl e
                                        | Inr wind_speed_kt \<Rightarrow>
                                            Inr (Some \<lparr>speed_kt = wind_speed_kt,
                                                        direction = wind_direction,
                                                        wd_lat = lat, wd_lon = lon\<rparr>)))))))))"

definition get_wind_data_try ::
  "py_lib \<Rightarrow> provider \<Rightarrow> real \<Rightarrow> real \<Rightarrow> request list
     \<Rightarrow> (py_error + wind_data option) \<times> request list" where
  "get_wind_data_try lib prov lat lon sent =
     (let sent1 = sent @ [PointsGet lat lon]
      in (case points_api prov sent lat lon of
            Inl e \<Rightarrow> (Inl e, sent1)
          | Inr response \<Rightarrow>
              (case grid_url_of response of
                 Inl e \<Rightarrow> (Inl e, sent1)
               | Inr None \<Rightarrow> (Inr None, sent1)
               | Inr (Some grid_url) \<Rightarrow>
                   (let sent2 = sent1 @ [GridGet grid_url]
                    in (case grid_api prov sent1 grid_url of
                          Inl e \<Rightarrow> (Inl e, sent2)
                        | Inr grid_response \<Rightarrow>
                            (wind_of_grid lib (clock prov sent2) lat lon grid_response,
                             sent2))))))"

text \<open>\<^verbatim>\<open>except Exception\<close>: every exception of the block becomes \<^verbatim>\<open>None\<close>.\<close>

definition get_wind_data ::
  "py_lib \<Rightarrow> provider \<Rightarrow> real \<Rightarrow> real \<Rightarrow> request list \<Rightarrow> wind_data option \<times> request list" where
  "get_wind_data lib prov lat lon sent =
     (case get_wind_data_try lib prov lat lon sent of
        (Inl e, sent') \<Rightarrow> (None, sent')
      | (Inr r, sent') \<Rightarrow> (r, sent'))"

subsection \<open>\<^verbatim>\<open>ocean_wind_data\<close>\<close>

text \<open>
  A feature of the output: \<^verbatim>\<open>geometry.coordinates\<close> is \<^verbatim>\<open>[lon, lat]\<close>, and the four
  properties are JSON numbers or null.
\<close>

record feature =
  coordinates :: "real \<times> real"
  prop_speed_kt :: "py_num option"
  dir_from_deg :: "py_num option"
  speed_mph :: "py_num option"
  speed_kmh :: "py_num option"

datatype http_result = FeatureCollection "feature list" | Error500 py_error

text \<open>
  Lines 179 to 192 for one result of \<^verbatim>\<open>get_wind_data\<close>, with the coordinate it was
  fetched for. A dictionary is true, so
  \<^verbatim>\<open>if wind_data and wind_data['speed_kt'] is not None\<close> asks for a result with a
  speed: \<open>None\<close> is a result that is skipped. Otherwise the feature is built, and the two
  products of lines 189 and 190 are computed in this order; either can raise.
\<close>

definition feature_result :: "real \<times> real \<times> wind_data option \<Rightarrow> (py_error + feature) option" where
  "feature_result t =
     (case t of
        (lat, lon, None) \<Rightarrow> None
      | (lat, lon, Some wd) \<Rightarrow>
          (case speed_kt wd of
             None \<Rightarrow> None
           | Some kt \<Rightarrow>
               Some (case py_mul kt 1.15078 of
                       Inl e \<Rightarrow> Inl e
                     | Inr mph \<Rightarrow>
                         (case py_mul kt 1.852 of
                            Inl e \<Rightarrow> Inl e
                          | Inr kmh \<Rightarrow>
                              Inr \<lparr>coordinates = (lon, lat),
                                    prop_speed_kt = speed_kt wd,
                                    dir_from_deg = direction wd,
                                    speed_mph = Some mph,
                                    speed_kmh = Some kmh\<rparr>))))"

text \<open>
  The \<^verbatim>\<open>for\<close> loop over \<^verbatim>\<open>enumerate(grid_points[:100])\<close>. An exception raised while
  a feature is built leaves the loop: the result is the exception, and the requests made
  so far.
\<close>

fun wind_loop ::
  "py_lib \<Rightarrow> provider \<Rightarrow> (nat \<times> real \<times> real) list \<Rightarrow> feature list \<Rightarrow> request list
     \<Rightarrow> (py_error + feature list) \<times> request list" where
  "wind_loop lib prov [] wind_features sent = (Inr wind_features, sent)"
| "wind_loop lib prov ((i, lat, lon) # rest) wind_features sent =
     (if i mod 5 = 0
      then (case get_wind_data lib prov lat lon sent of
              (wind_data, sent') \<Rightarrow>
                (case feature_result (lat, lon, wind_data) of
                   None \<Rightarrow> wind_loop lib prov rest wind_features sent'
                 | Some (Inl e) \<Rightarrow> (Inl e, sent')
                 | Some (Inr feature) \<Rightarrow>
                     wind_loop lib prov rest (wind_features @ [feature]) sent'))
      else wind_loop lib prov rest wind_features sent)"

text \<open>
  Lines 172 to 201: what the endpoint does once it has the grid. The outer
  \<^verbatim>\<open>except\<close> answers an exception of the loop with status 500.
\<close>

definition collect_features ::
  "py_lib \<Rightarrow> provider \<Rightarrow> (real \<times> real) list \<Rightarrow> request list \<Rightarrow> http_result \<times> request list" where
  "collect_features lib prov grid_points sent =
     (case wind_loop lib prov (enumerate 0 (take 100 grid_points)) [] sent of
        (Inl e, sent') \<Rightarrow> (Error500 e, sent')
      | (Inr wind_features, sent') \<Rightarrow> (FeatureCollection wind_features, sent'))"

text \<open>
  The endpoint: an exception of \<^verbatim>\<open>create_ocean_grid\<close> is caught by the same
  \<^verbatim>\<open>except\<close>; \<open>None\<close> is a run that does not return.
\<close>

definition ocean_wind_data ::
  "py_lib \<Rightarrow> provider \<Rightarrow> request list \<Rightarrow> (http_result \<times> request list) option" where
  "ocean_wind_data lib prov sent =
     (case create_ocean_grid of
        None \<Rightarrow> None
      | Some (Inl e) \<Rightarrow> Some (Error500 e, sent)
      | Some (Inr grid_points) \<Rightarrow> Some (collect_features lib prov grid_points sent))"

subsection \<open>The selection in the words of the specification\<close>

text \<open>
  These definitions follow the specification, not the source; the statements compare
  \<^verbatim>\<open>find_current_value\<close> with them. An entry is resolved when its string parses to a
  start and an end. It covers the reference instant when start \<open>\<le>\<close> reference \<open><\<close> end.
  The current value is the value of the first entry of the series that covers the
  reference, and absent when there is none. An entry raises when parsing it or comparing
  its interval with the reference raises an exception. A parse result is usable when it
  has both a start and an end.
\<close>

definition resolved :: "py_lib \<Rightarrow> entry \<Rightarrow> (datetime \<times> datetime) option" where
  "resolved lib item =
     (case parse_valid_time lib (get_validTime item) of
        Inr (Some s, Some e) \<Rightarrow> Some (s, e)
      | _ \<Rightarrow> None)"

definition covers :: "py_lib \<Rightarrow> datetime \<Rightarrow> entry \<Rightarrow> bool" where
  "covers lib now item =
     (case resolved lib item of
        None \<Rightarrow> False
      | Some (s, e) \<Rightarrow> dt_le s now = Inr True \<and> dt_lt now e = Inr True)"

definition raises :: "py_lib \<Rightarrow> datetime \<Rightarrow> entry \<Rightarrow> bool" where
  "raises lib now item =
     (case parse_valid_time lib (get_validTime item) of
        Inl e \<Rightarrow> True
      | Inr (Some s, Some e) \<Rightarrow> isl (dt_le s now) \<or> (dt_le s now = Inr True \<and> isl (dt_lt now e))
      | _ \<Rightarrow> False)"

definition select_current :: "py_lib \<Rightarrow> datetime \<Rightarrow> entry list \<Rightarrow> py_num option" where
  "select_current lib now series =
     (case find (covers lib now) series of
        None \<Rightarrow> None
      | Some item \<Rightarrow> entry_value item)"

definition usable :: "datetime option \<times> datetime option \<Rightarrow> bool" where
  "usable r = (case r of (Some s, Some e) \<Rightarrow> True | _ \<Rightarrow> False)"

subsection \<open>A standard library for the concrete inputs\<close>

text \<open>
  The concrete inputs below need a value for the parameter \<open>lib\<close>. The service writes
  its timestamps as \<^verbatim>\<open>YYYY-MM-DDTHH:MM:SS+HH:MM\<close>. \<open>fromisoformat_basic\<close> reads this
  format, with the offset or without it, as \<^verbatim>\<open>datetime.fromisoformat\<close> does: ASCII
  digits, the proleptic Gregorian calendar, a naive value when there is no offset. It
  rejects every other string, also those other formats that Python accepts.
  \<open>sample_digit\<close> is the part of the Unicode database for the ASCII digits and the
  Arabic-Indic digits U+0660 to U+0669. \<open>sample_lib\<close> has both, and the default limit of
  4300 digits. The general theorems do not depend on them.
\<close>

definition ascii_digit :: "nat \<Rightarrow> bool" where
  "ascii_digit c = (48 \<le> c \<and> c \<le> 57)"

definition digits_nat :: "py_str \<Rightarrow> nat option" where
  "digits_nat s =
     (if s \<noteq> [] \<and> list_all ascii_digit s then Some (foldl (\<lambda>n c. 10 * n + (c - 48)) 0 s)
      else None)"

definition field :: "py_str \<Rightarrow> nat \<Rightarrow> nat \<Rightarrow> nat option" where
  "field s i n = digits_nat (take n (drop i s))"

definition is_leap :: "nat \<Rightarrow> bool" where
  "is_leap y = (y mod 4 = 0 \<and> (y mod 100 \<noteq> 0 \<or> y mod 400 = 0))"

definition days_in_month :: "nat \<Rightarrow> nat \<Rightarrow> nat" where
  "days_in_month y m =
     (if m = 2 then (if is_leap y then 29 else 28)
      else if m = 4 \<or> m = 6 \<or> m = 9 \<or> m = 11 then 30 else 31)"

definition days_before_year :: "nat \<Rightarrow> nat" where
  "days_before_year y = (y - 1) * 365 + (y - 1) div 4 - (y - 1) div 100 + (y - 1) div 400"

definition days_before_month :: "nat \<Rightarrow> nat \<Rightarrow> nat" where
  "days_before_month y m = sum_list (map (days_in_month y) [1..<m])"

definition local_micros :: "nat \<Rightarrow> nat \<Rightarrow> nat \<Rightarrow> nat \<Rightarrow> nat \<Rightarrow> nat \<Rightarrow> int" where
  "local_micros y mo d h mi sec =
     ((int (days_before_year y + days_before_month y mo + d) - 1) * 86400
        + int h * 3600 + int mi * 60 + int sec) * 1000000"

definition utc_offset :: "py_str \<Rightarrow> int option" where
  "utc_offset s =
     (if length s = 6 \<and> (s ! 0 = cp CHR ''+'' \<or> s ! 0 = cp CHR ''-'') \<and> s ! 3 = cp CHR '':''
      then (case (field s 1 2, field s 4 2) of
              (Some h, Some mi) \<Rightarrow>
                if h < 24 \<and> mi < 60
                then Some ((if s ! 0 = cp CHR ''-'' then - 1 else 1)
                             * (int h * 3600 + int mi * 60) * 1000000)
                else None
            | _ \<Rightarrow> None)
      else None)"

definition fromisoformat_basic :: "py_str \<Rightarrow> datetime option" where
  "fromisoformat_basic s =
     (if (length s = 19 \<or> length s = 25) \<and> s ! 4 = cp CHR ''-'' \<and> s ! 7 = cp CHR ''-''
          \<and> s ! 10 = cp CHR ''T'' \<and> s ! 13 = cp CHR '':'' \<and> s ! 16 = cp CHR '':''
      then (case (field s 0 4, field s 5 2, field s 8 2) of
              (Some y, Some mo, Some d) \<Rightarrow>
                (case (field s 11 2, field s 14 2, field s 17 2) of
                   (Some h, Some mi, Some sec) \<Rightarrow>
                     if 1 \<le> y \<and> 1 \<le> mo \<and> mo \<le> 12 \<and> 1 \<le> d \<and> d \<le> days_in_month y mo
                          \<and> h < 24 \<and> mi < 60 \<and> sec < 60
                     then (if length s = 19 then Some (Naive (local_micros y mo d h mi sec))
                           else (case utc_offset (drop 19 s) of
                                   None \<Rightarrow> None
                                 | Some off \<Rightarrow> Some (Aware (local_micros y mo d h mi sec) off)))
                     else None
                 | _ \<Rightarrow> None)
            | _ \<Rightarrow> None)
      else None)"

definition sample_digit :: "nat \<Rightarrow> nat option" where
  "sample_digit c =
     (if 48 \<le> c \<and> c \<le> 57 then Some (c - 48)
      else if 1632 \<le> c \<and> c \<le> 1641 then Some (c - 1632)
      else None)"

definition sample_lib :: py_lib where
  "sample_lib =
     \<lparr>fromisoformat = fromisoformat_basic, decimal_digit = sample_digit,
      int_max_str_digits = 4300\<rparr>"

subsection \<open>Observing a run of the endpoint\<close>

text \<open>
  These definitions are not in the source; the statements about a run are written with
  them. \<open>points_requests\<close> are the coordinates of the points lookups in a list of
  requests, in order: one per call of \<^verbatim>\<open>get_wind_data\<close>. \<open>sampled\<close> are the
  points of an enumerated list whose index is a multiple of 5. \<open>fetch_trace\<close> follows
  the loop of the endpoint and lists, for every call of \<^verbatim>\<open>get_wind_data\<close>, the
  coordinate and what the call returned; it ends with the call whose feature raised, if
  there is one. \<open>feature_of\<close> is the feature the loop appends for such a result, if it
  appends one. A fetch is without speed when it returned \<^verbatim>\<open>None\<close> or a sample whose
  speed is null.
\<close>

fun points_requests :: "request list \<Rightarrow> (real \<times> real) list" where
  "points_requests [] = []"
| "points_requests (PointsGet lat lon # rs) = (lat, lon) # points_requests rs"
| "points_requests (GridGet url # rs) = points_requests rs"

definition sampled :: "(nat \<times> real \<times> real) list \<Rightarrow> (real \<times> real) list" where
  "sampled xs = map snd (filter (\<lambda>(i, p). i mod 5 = 0) xs)"

fun fetch_trace ::
  "py_lib \<Rightarrow> provider \<Rightarrow> (nat \<times> real \<times> real) list \<Rightarrow> request list
     \<Rightarrow> (real \<times> real \<times> wind_data option) list" where
  "fetch_trace lib prov [] sent = []"
| "fetch_trace lib prov ((i, lat, lon) # rest) sent =
     (if i mod 5 = 0
      then (case get_wind_data lib prov lat lon sent of
              (r, sent') \<Rightarrow>
                (lat, lon, r) #
                  (case feature_result (lat, lon, r) of
                     Some (Inl e) \<Rightarrow> []
                   | _ \<Rightarrow> fetch_trace lib prov rest sent'))
      else fetch_trace lib prov rest sent)"

definition feature_of :: "real \<times> real \<times> wind_data option \<Rightarrow> feature option" where
  "feature_of t = (case feature_result t of Some (Inr f) \<Rightarrow> Some f | _ \<Rightarrow> None)"


definition coordinate_of :: "real \<times> real \<times> wind_data option \<Rightarrow> real \<times> real" where
  "coordinate_of t = (case t of (lat, lon, r) \<Rightarrow> (lat, lon))"

text \<open>The trace of the endpoint itself, on the grid it creates.\<close>

definition run_trace ::
  "py_lib \<Rightarrow> provider \<Rightarrow> request list \<Rightarrow> (real \<times> real \<times> wind_data option) list" where
  "run_trace lib prov sent =
     (case create_ocean_grid of
        Some (Inr grid_points) \<Rightarrow>
          fetch_trace lib prov (enumerate 0 (take 100 grid_points)) sent
      | _ \<Rightarrow> [])"

subsection \<open>Four weather services for the concrete runs\<close>

text \<open>
  \<open>prov_down\<close> fails every request. \<open>prov_calm\<close> answers every request, and its grid
  documents have no wind series. \<open>prov_breeze\<close> answers every request with a wind speed
  of 10 metres per second, valid for six hours from 2024-01-01T00:00:00Z, and no wind
  direction; its clock shows 01:00 on that day. \<open>prov_huge\<close> is \<open>prov_breeze\<close> with the
  integer \<open>10 ^ 400\<close> as the speed and no unit code.
\<close>

definition prov_down :: provider where
  "prov_down =
     \<lparr>points_api = (\<lambda>sent lat lon. Inl RequestException),
      grid_api = (\<lambda>sent url. Inl RequestException),
      clock = (\<lambda>sent. 63839667600000000)\<rparr>"

definition points_ok :: "points_doc response" where
  "points_ok =
     \<lparr>status_code = 200,
      json = Some \<lparr>points_props = Some \<lparr>forecastGridData = Some (ustr ''grid'')\<rparr>\<rparr>\<rparr>"


definition speed_series :: "py_num \<Rightarrow> py_str option \<Rightarrow> grid_doc response" where
  "speed_series v unit_code =
     \<lparr>status_code = 200,
      json = Some \<lparr>grid_props = Some
        \<lparr>windSpeed = Some
           \<lparr>series_values =
              Some [\<lparr>validTime = Some (ustr ''2024-01-01T00:00:00Z/PT6H''),
                     entry_value = Some v\<rparr>],
            uom = unit_code\<rparr>,
         windDirection = None\<rparr>\<rparr>\<rparr>"




section \<open>Properties\<close>

subsection \<open>Evaluating the sample timestamps\<close>

lemmas iso_defs =
  fromisoformat_basic_def field_def digits_nat_def ascii_digit_def
  days_in_month_def is_leap_def local_micros_def days_before_year_def days_before_month_def
  utc_offset_def

lemmas pvt_defs =
  parse_valid_time_def split_slash_def replace_Z_def VALID_TIME_DURATION_fullmatch_def
  opt_field_def duration_time_part_def part_def timedelta_def max_local_def is_digit_def
  py_int_def digit_val_def sample_lib_def sample_digit_def ustr_def

lemma iso_2024_utc:
  "fromisoformat_basic (ustr ''2024-01-01T00:00:00+00:00'') = Some (Aware 63839664000000000 0)"
  by (simp add: iso_defs ustr_def)

lemma parse_PT6H:
  "parse_valid_time sample_lib (ustr ''2024-01-01T00:00:00Z/PT6H'') =
     Inr (Some (Aware 63839664000000000 0), Some (Aware 63839685600000000 0))"
  by (simp add: pvt_defs iso_defs)

lemma parse_P0D:
  "parse_valid_time sample_lib (ustr ''2024-01-01T00:00:00Z/P0D'') = Inr (None, None)"
  by (simp add: pvt_defs iso_defs)

lemma fullmatch_P0D:
  "VALID_TIME_DURATION_fullmatch sample_lib (snd (split_slash (ustr ''2024-01-01T00:00:00Z/P0D'')))
     = Some (Some (ustr ''0''), None, None, None)"
  by (simp add: pvt_defs)

lemma decoded_P0D: "decoded_duration sample_lib (Some (ustr ''0''), None, None, None) = Inr 0"
  by (simp add: pvt_defs)

text \<open>
  A duration written with the Arabic-Indic digit three, U+0663, is a duration of three
  days. A run of 4301 digits is more than \<^verbatim>\<open>int\<close> converts.
\<close>

lemma parse_arabic_indic_P3D:
  "parse_valid_time sample_lib (ustr ''2024-01-01T00:00:00Z/P'' @ [1635] @ ustr ''D'') =
     Inr (Some (Aware 63839664000000000 0), Some (Aware 63839923200000000 0))"
  by (simp add: pvt_defs iso_defs)

lemma py_int_limit:
  "py_int sample_lib (replicate 4300 (cp CHR ''0'') @ ustr ''1'') = Inl ValueError"
  by (simp add: py_int_def sample_lib_def ustr_def)

subsection \<open>Intervals\<close>

lemma timedelta_nonneg: "timedelta d h m s = Inr us \<Longrightarrow> 0 \<le> us"
  by (auto simp: timedelta_def Let_def split: if_splits)

lemma decoded_duration_nonneg: "decoded_duration lib g = Inr d \<Longrightarrow> 0 \<le> d"
  by (cases g) (auto dest: timedelta_nonneg split: sum.splits)

lemma dt_add_after: "dt_add a d = Inr b \<Longrightarrow> 0 < d \<Longrightarrow> dt_lt a b = Inr True"
  by (cases a) (auto split: if_splits)

text \<open>What a concrete interval says about the string it was parsed from.\<close>

lemma parse_valid_time_concrete:
  assumes "parse_valid_time lib vt = Inr (Some s, Some e)"
  shows "\<exists>g d. cp CHR ''/'' \<in> set vt \<and> fromisoformat lib (replace_Z (fst (split_slash vt))) = Some s
           \<and> VALID_TIME_DURATION_fullmatch lib (snd (split_slash vt)) = Some g
           \<and> decoded_duration lib g = Inr d \<and> d \<noteq> 0 \<and> dt_add s d = Inr e"
  using assms
  by (auto simp: parse_valid_time_def Let_def case_prod_unfold
           simp del: decoded_duration.simps
           split: if_splits option.splits sum.splits)

text \<open>
  C8. Whenever \<^verbatim>\<open>parse_valid_time\<close> returns both a start and an end, the end is
  strictly after the start. A string whose duration part matches the pattern and decodes
  to a zero duration never gives such a pair.
\<close>

theorem parse_valid_time_end_after_start:
  "(parse_valid_time lib vt = Inr (Some start_dt, Some end_dt)
      \<longrightarrow> dt_lt start_dt end_dt = Inr True)
   \<and> (VALID_TIME_DURATION_fullmatch lib (snd (split_slash vt)) = Some groups
        \<and> decoded_duration lib groups = Inr 0
      \<longrightarrow> (\<forall>s e. parse_valid_time lib vt \<noteq> Inr (Some s, Some e)))"
proof (intro conjI impI allI)
  assume a: "parse_valid_time lib vt = Inr (Some start_dt, Some end_dt)"
  from parse_valid_time_concrete[OF a] obtain g d where
    d: "decoded_duration lib g = Inr d" "d \<noteq> 0" "dt_add start_dt d = Inr end_dt" by blast
  from decoded_duration_nonneg[OF d(1)] d(2) have "0 < d" by simp
  with d(3) show "dt_lt start_dt end_dt = Inr True" by (rule dt_add_after)
next
  fix s e
  assume z: "VALID_TIME_DURATION_fullmatch lib (snd (split_slash vt)) = Some groups
        \<and> decoded_duration lib groups = Inr 0"
  show "parse_valid_time lib vt \<noteq> Inr (Some s, Some e)"
  proof
    assume a: "parse_valid_time lib vt = Inr (Some s, Some e)"
    from parse_valid_time_concrete[OF a] z show False by auto
  qed
qed

theorem parse_valid_time_end_after_start_witness:
  "parse_valid_time sample_lib (ustr ''2024-01-01T00:00:00Z/PT6H'')
     = Inr (Some (Aware 63839664000000000 0), Some (Aware 63839685600000000 0))
   \<and> dt_lt (Aware 63839664000000000 0) (Aware 63839685600000000 0) = Inr True
   \<and> VALID_TIME_DURATION_fullmatch sample_lib
        (snd (split_slash (ustr ''2024-01-01T00:00:00Z/P0D'')))
       = Some (Some (ustr ''0''), None, None, None)
   \<and> decoded_duration sample_lib (Some (ustr ''0''), None, None, None) = Inr 0
   \<and> (\<forall>s e. parse_valid_time sample_lib (ustr ''2024-01-01T00:00:00Z/P0D'')
               \<noteq> Inr (Some s, Some e))"
  using parse_valid_time_end_after_start
          [of sample_lib "ustr ''2024-01-01T00:00:00Z/PT6H''"
              "Aware 63839664000000000 0" "Aware 63839685600000000 0"]
        parse_valid_time_end_after_start
          [of sample_lib "ustr ''2024-01-01T00:00:00Z/P0D''" _ _
              "(Some (ustr ''0''), None, None, None)"]
        parse_PT6H fullmatch_P0D decoded_P0D
  by simp

subsection \<open>Units\<close>

text \<open>
  C3, as the code has it. A null speed gives null for every unit code. A number within
  the float range (every float, and every integer that converts to a float) tagged with
  one of the six known codes is multiplied by 0.539957 (kilometres per hour), 1.94384
  (metres per second) or 1.0 (knots); 10 metres per second are 19.4384 knots. A missing
  or unknown unit code returns the speed unchanged.
\<close>

theorem to_knots_conversion:
  "to_knots None unit_code = Inr None
   \<and> (fits_float v \<longrightarrow>
        to_knots (Some v) (Some (ustr ''wmoUnit:km_h-1''))
          = Inr (Some (PyFloat (num_val v * 0.539957)))
        \<and> to_knots (Some v) (Some (ustr ''unit:km_h''))
          = Inr (Some (PyFloat (num_val v * 0.539957)))
        \<and> to_knots (Some v) (Some (ustr ''wmoUnit:m_s-1''))
          = Inr (Some (PyFloat (num_val v * 1.94384)))
        \<and> to_knots (Some v) (Some (ustr ''unit:m_s''))
          = Inr (Some (PyFloat (num_val v * 1.94384)))
        \<and> to_knots (Some v) (Some (ustr ''wmoUnit:knot''))
          = Inr (Some (PyFloat (num_val v * 1.0)))
        \<and> to_knots (Some v) (Some (ustr ''unit:kt''))
          = Inr (Some (PyFloat (num_val v * 1.0))))
   \<and> to_knots (Some (PyInt 10)) (Some (ustr ''wmoUnit:m_s-1'')) = Inr (Some (PyFloat 19.4384))
   \<and> to_knots (Some v) None = Inr (Some v)
   \<and> (code \<notin> {ustr ''wmoUnit:km_h-1'', ustr ''wmoUnit:m_s-1'', ustr ''wmoUnit:knot'',
                 ustr ''unit:km_h'', ustr ''unit:m_s'', ustr ''unit:kt''}
        \<longrightarrow> to_knots (Some v) (Some code) = Inr (Some v))"
  by (simp add: to_knots_def dict_get_def unit_multipliers_def py_mul_def ustr_def)

theorem to_knots_conversion_witness:
  "fits_float (PyInt 10)
   \<and> to_knots (Some (PyInt 10)) (Some (ustr ''unit:km_h'')) = Inr (Some (PyFloat 5.39957))
   \<and> ustr ''unknown-code'' \<notin> {ustr ''wmoUnit:km_h-1'', ustr ''wmoUnit:m_s-1'',
                        ustr ''wmoUnit:knot'', ustr ''unit:km_h'', ustr ''unit:m_s'', ustr ''unit:kt''}
   \<and> to_knots (Some (PyInt 10)) (Some (ustr ''unknown-code'')) = Inr (Some (PyInt 10))
   \<and> to_knots None (Some (ustr ''unit:kt'')) = Inr None"
proof -
  have f: "fits_float (PyInt 10)" by simp
  have u: "ustr ''unknown-code'' \<notin> {ustr ''wmoUnit:km_h-1'', ustr ''wmoUnit:m_s-1'',
                        ustr ''wmoUnit:knot'', ustr ''unit:km_h'', ustr ''unit:m_s'', ustr ''unit:kt''}"
    by (simp add: ustr_def)
  from to_knots_conversion [of "Some (ustr ''unit:kt'')" "PyInt 10" "ustr ''unknown-code''"] f u
  show ?thesis by simp
qed

text \<open>
  C3 as stated fails on the integer \<open>10 ^ 400\<close>, which is beyond the float range:
  the product of line 87 raises \<^verbatim>\<open>OverflowError\<close>, and no speed is returned.
\<close>

theorem to_knots_huge_counterexample:
  "to_knots (Some (PyInt (10 ^ 400))) (Some (ustr ''wmoUnit:m_s-1'')) = Inl OverflowError"
  by (simp add: to_knots_def dict_get_def unit_multipliers_def py_mul_def ustr_def)

subsection \<open>The grid\<close>

text \<open>
  Between the poles the cosine is positive, so the longitude step is a positive number.
\<close>

lemma cos_radians_pos:
  assumes "- 90 < lat" "lat < 90"
  shows "0 < cos (radians lat)"
proof -
  have "lat * (pi / 180) < 90 * (pi / 180)"
    using assms(2) by (intro mult_strict_right_mono) simp_all
  moreover have "- 90 * (pi / 180) < lat * (pi / 180)"
    using assms(1) by (intro mult_strict_right_mono) simp_all
  ultimately show ?thesis
    unfolding radians_def by (intro cos_gt_zero_pi) simp_all
qed

lemma km_to_deg_lon_pos:
  assumes "- 90 < lat" "lat < 90"
  shows "\<exists>step. km_to_deg_lon 10 lat = Inr step \<and> 0 < step"
  using cos_radians_pos[OF assms] by (simp add: km_to_deg_lon_def py_div_def)

lemma lon_loop_exit: "east EAST_COAST_BOUNDS < lon \<Longrightarrow> lon_loop lat step lon pts = Some pts"
  by (subst lon_loop.simps) simp

lemma lon_loop_step:
  "lon \<le> east EAST_COAST_BOUNDS \<Longrightarrow>
   lon_loop lat step lon pts =
     lon_loop lat step (lon + step) (if in_ocean lat lon then pts @ [(lat, lon)] else pts)"
  by (subst lon_loop.simps) (simp add: in_ocean_def)

lemma lon_loop_rows:
  assumes step: "0 < step"
  shows "east EAST_COAST_BOUNDS - lon < real n * step \<Longrightarrow>
     \<exists>new. lon_loop lat step lon pts = Some (pts @ new)
        \<and> (\<forall>p \<in> set new. fst p = lat \<and> lon \<le> snd p \<and> snd p \<le> east EAST_COAST_BOUNDS
               \<and> in_ocean lat (snd p))
        \<and> distinct new"
proof (induction n arbitrary: lon pts)
  case 0
  then have "east EAST_COAST_BOUNDS < lon" by simp
  then have "lon_loop lat step lon pts = Some (pts @ [])" by (simp add: lon_loop_exit)
  then show ?case by (intro exI[of _ "[]"]) simp
next
  case (Suc n)
  show ?case
  proof (cases "lon \<le> east EAST_COAST_BOUNDS")
    case False
    then have "lon_loop lat step lon pts = Some (pts @ [])" by (simp add: lon_loop_exit)
    then show ?thesis by (intro exI[of _ "[]"]) simp
  next
    case True
    let ?pts = "if in_ocean lat lon then pts @ [(lat, lon)] else pts"
    have "east EAST_COAST_BOUNDS - (lon + step) < real n * step"
      using Suc.prems by (simp add: algebra_simps)
    from Suc.IH[OF this, of ?pts] obtain new where
      new: "lon_loop lat step (lon + step) ?pts = Some (?pts @ new)"
        "\<forall>p \<in> set new. fst p = lat \<and> lon + step \<le> snd p \<and> snd p \<le> east EAST_COAST_BOUNDS
               \<and> in_ocean lat (snd p)"
        "distinct new" by blast
    let ?new = "(if in_ocean lat lon then [(lat, lon)] else []) @ new"
    have eq: "lon_loop lat step lon pts = Some (pts @ ?new)"
      using new(1) True by (simp add: lon_loop_step)
    have notin: "(lat, lon) \<notin> set new"
      using new(2) step by fastforce
    have "\<forall>p \<in> set ?new. fst p = lat \<and> lon \<le> snd p \<and> snd p \<le> east EAST_COAST_BOUNDS
               \<and> in_ocean lat (snd p)"
      using new(2) step True by fastforce
    moreover have "distinct ?new" using new(3) notin by simp
    ultimately show ?thesis using eq by blast
  qed
qed

lemma lon_loop_total:
  assumes step: "0 < step"
  shows "\<exists>new. lon_loop lat step lon pts = Some (pts @ new)
        \<and> (\<forall>p \<in> set new. fst p = lat \<and> lon \<le> snd p \<and> snd p \<le> east EAST_COAST_BOUNDS
               \<and> in_ocean lat (snd p))
        \<and> distinct new"
proof -
  from ex_less_of_nat_mult[OF step] obtain n where "east EAST_COAST_BOUNDS - lon < real n * step"
    by blast
  from lon_loop_rows[OF step this] show ?thesis .
qed


lemma lat_loop_exit:
  "north EAST_COAST_BOUNDS < lat \<Longrightarrow> lat_loop lat_step lat pts = Some (Inr pts)"
  by (subst lat_loop.simps) simp

lemma lat_loop_step:
  "lat \<le> north EAST_COAST_BOUNDS \<Longrightarrow> km_to_deg_lon 10 lat = Inr step \<Longrightarrow>
   lon_loop lat step (west EAST_COAST_BOUNDS) pts = Some pts' \<Longrightarrow>
   lat_loop lat_step lat pts = lat_loop lat_step (lat + lat_step) pts'"
  by (subst lat_loop.simps) simp

lemma lat_loop_rows:
  assumes lat_step: "0 < lat_step"
  shows "north EAST_COAST_BOUNDS - lat < real n * lat_step \<Longrightarrow> - 90 < lat \<Longrightarrow>
     \<exists>new. lat_loop lat_step lat pts = Some (Inr (pts @ new))
        \<and> (\<forall>p \<in> set new. lat \<le> fst p \<and> fst p \<le> north EAST_COAST_BOUNDS
               \<and> west EAST_COAST_BOUNDS \<le> snd p \<and> snd p \<le> east EAST_COAST_BOUNDS
               \<and> in_ocean (fst p) (snd p))
        \<and> distinct new"
proof (induction n arbitrary: lat pts)
  case 0
  then have "lat_loop lat_step lat pts = Some (Inr (pts @ []))" by (simp add: lat_loop_exit)
  then show ?case by (intro exI[of _ "[]"]) simp
next
  case (Suc n)
  show ?case
  proof (cases "lat \<le> north EAST_COAST_BOUNDS")
    case False
    then have "lat_loop lat_step lat pts = Some (Inr (pts @ []))" by (simp add: lat_loop_exit)
    then show ?thesis by (intro exI[of _ "[]"]) simp
  next
    case True
    then have "lat < 90" by (simp add: EAST_COAST_BOUNDS_def)
    from km_to_deg_lon_pos[OF Suc.prems(2) this] obtain step where
      step: "km_to_deg_lon 10 lat = Inr step" "0 < step" by blast
    from lon_loop_total[OF step(2), of lat "west EAST_COAST_BOUNDS" pts] obtain row where
      row: "lon_loop lat step (west EAST_COAST_BOUNDS) pts = Some (pts @ row)"
        "\<forall>p \<in> set row. fst p = lat \<and> west EAST_COAST_BOUNDS \<le> snd p
            \<and> snd p \<le> east EAST_COAST_BOUNDS \<and> in_ocean lat (snd p)"
        "distinct row" by blast
    have "north EAST_COAST_BOUNDS - (lat + lat_step) < real n * lat_step"
      using Suc.prems(1) by (simp add: algebra_simps)
    moreover have "- 90 < lat + lat_step" using Suc.prems(2) lat_step by simp
    ultimately obtain new where
      new: "lat_loop lat_step (lat + lat_step) (pts @ row) = Some (Inr ((pts @ row) @ new))"
        "\<forall>p \<in> set new. lat + lat_step \<le> fst p \<and> fst p \<le> north EAST_COAST_BOUNDS
               \<and> west EAST_COAST_BOUNDS \<le> snd p \<and> snd p \<le> east EAST_COAST_BOUNDS
               \<and> in_ocean (fst p) (snd p)"
        "distinct new"
      using Suc.IH[of "lat + lat_step" "pts @ row"] by blast
    have eq: "lat_loop lat_step lat pts = Some (Inr (pts @ (row @ new)))"
      using lat_loop_step[OF True step(1) row(1)] new(1) by simp
    have disj: "set row \<inter> set new = {}"
      using row(2) new(2) lat_step by fastforce
    have "\<forall>p \<in> set (row @ new). lat \<le> fst p \<and> fst p \<le> north EAST_COAST_BOUNDS
               \<and> west EAST_COAST_BOUNDS \<le> snd p \<and> snd p \<le> east EAST_COAST_BOUNDS
               \<and> in_ocean (fst p) (snd p)"
      using row(2) new(2) lat_step True by fastforce
    moreover have "distinct (row @ new)" using row(3) new(3) disj by simp
    ultimately show ?thesis using eq by blast
  qed
qed

lemma lat_step_pos: "km_to_deg_lat 10 = Inr (10 / 111.32)"
  by (simp add: km_to_deg_lat_def py_div_def)

lemma create_ocean_grid_rows:
  "\<exists>grid. create_ocean_grid = Some (Inr grid)
      \<and> (\<forall>p \<in> set grid.
             south EAST_COAST_BOUNDS \<le> fst p \<and> fst p \<le> north EAST_COAST_BOUNDS
             \<and> west EAST_COAST_BOUNDS \<le> snd p \<and> snd p \<le> east EAST_COAST_BOUNDS
             \<and> in_ocean (fst p) (snd p))
      \<and> distinct grid"
proof -
  have pos: "(0::real) < 10 / 111.32" by simp
  from ex_less_of_nat_mult[OF pos] obtain n where
    n: "north EAST_COAST_BOUNDS - south EAST_COAST_BOUNDS < real n * (10 / 111.32)" by blast
  have "- 90 < south EAST_COAST_BOUNDS" by (simp add: EAST_COAST_BOUNDS_def)
  from lat_loop_rows[OF pos n this, of "[]"] obtain new where
    new: "lat_loop (10 / 111.32) (south EAST_COAST_BOUNDS) [] = Some (Inr new)"
      "\<forall>p \<in> set new. south EAST_COAST_BOUNDS \<le> fst p \<and> fst p \<le> north EAST_COAST_BOUNDS
               \<and> west EAST_COAST_BOUNDS \<le> snd p \<and> snd p \<le> east EAST_COAST_BOUNDS
               \<and> in_ocean (fst p) (snd p)"
      "distinct new" by auto
  have "create_ocean_grid = Some (Inr new)"
    using new(1) by (simp add: create_ocean_grid_def lat_step_pos)
  then show ?thesis using new(2,3) by blast
qed

lemma create_ocean_grid_first:
  "\<exists>rest. create_ocean_grid = Some (Inr ((24, - 82) # rest))"
proof -
  have pos: "(0::real) < 10 / 111.32" by simp
  from km_to_deg_lon_pos[of 24] obtain step where
    step: "km_to_deg_lon 10 24 = Inr step" "0 < step" by auto
  from lon_loop_total[OF step(2), of 24 "- 82 + step" "[(24, - 82)]"] obtain row where
    row: "lon_loop 24 step (- 82 + step) [(24, - 82)] = Some ([(24, - 82)] @ row)" by blast
  have r1: "lon_loop 24 step (west EAST_COAST_BOUNDS) [] = Some ((24, - 82) # row)"
    using row by (simp add: lon_loop_step EAST_COAST_BOUNDS_def in_ocean_def)
  from ex_less_of_nat_mult[OF pos] obtain n where
    n: "north EAST_COAST_BOUNDS - (24 + 10 / 111.32) < real n * (10 / 111.32)" by blast
  from lat_loop_rows[OF pos n, of "(24, - 82) # row"] obtain new where
    new: "lat_loop (10 / 111.32) (24 + 10 / 111.32) ((24, - 82) # row)
            = Some (Inr (((24, - 82) # row) @ new))" by auto
  have "24 \<le> north EAST_COAST_BOUNDS" by (simp add: EAST_COAST_BOUNDS_def)
  from lat_loop_step[OF this step(1), of "[]" "(24, - 82) # row" "10 / 111.32"] r1 new
  have "lat_loop (10 / 111.32) 24 [] = Some (Inr ((24, - 82) # (row @ new)))" by simp
  then have "create_ocean_grid = Some (Inr ((24, - 82) # (row @ new)))"
    by (simp add: create_ocean_grid_def lat_step_pos EAST_COAST_BOUNDS_def)
  then show ?thesis by blast
qed


text \<open>
  C7. \<^verbatim>\<open>create_ocean_grid\<close> takes no input and is a function of nothing but the
  constants of the module, so it is deterministic. It returns: both loops end and no
  division fails. Every coordinate of the grid lies within the bounds, south to north and
  west to east, and no coordinate occurs twice.
\<close>

theorem create_ocean_grid_within_bounds:
  "\<exists>grid. create_ocean_grid = Some (Inr grid)
      \<and> (\<forall>(lat, lon) \<in> set grid.
             south EAST_COAST_BOUNDS \<le> lat \<and> lat \<le> north EAST_COAST_BOUNDS
             \<and> west EAST_COAST_BOUNDS \<le> lon \<and> lon \<le> east EAST_COAST_BOUNDS)
      \<and> distinct grid"
  using create_ocean_grid_rows by fastforce

theorem create_ocean_grid_within_bounds_witness:
  "\<exists>grid. create_ocean_grid = Some (Inr grid)
      \<and> (24, - 82) \<in> set grid
      \<and> south EAST_COAST_BOUNDS \<le> 24 \<and> 24 \<le> north EAST_COAST_BOUNDS
      \<and> west EAST_COAST_BOUNDS \<le> - 82 \<and> - 82 \<le> east EAST_COAST_BOUNDS
      \<and> distinct grid"
proof -
  from create_ocean_grid_within_bounds obtain grid where
    g: "create_ocean_grid = Some (Inr grid)"
       "\<forall>(lat, lon) \<in> set grid.
             south EAST_COAST_BOUNDS \<le> lat \<and> lat \<le> north EAST_COAST_BOUNDS
             \<and> west EAST_COAST_BOUNDS \<le> lon \<and> lon \<le> east EAST_COAST_BOUNDS"
       "distinct grid" by blast
  from create_ocean_grid_first obtain rest where
    "create_ocean_grid = Some (Inr ((24, - 82) # rest))" by blast
  with g(1) have "grid = (24, - 82) # rest" by (metis option.inject sum.inject(2))
  then have m: "(24, - 82) \<in> set grid" by simp
  with g(2) have "south EAST_COAST_BOUNDS \<le> 24 \<and> 24 \<le> north EAST_COAST_BOUNDS
      \<and> west EAST_COAST_BOUNDS \<le> - 82 \<and> - 82 \<le> east EAST_COAST_BOUNDS" by fastforce
  with g(1,3) m show ?thesis by blast
qed

text \<open>
  C10. Every coordinate of the grid passes the test of line 104: its longitude is below
  -75, or its latitude is above 35 and its longitude below -70. No other coordinate is in
  the grid.
\<close>

theorem create_ocean_grid_ocean_only:
  "\<exists>grid. create_ocean_grid = Some (Inr grid)
      \<and> (\<forall>(lat, lon) \<in> set grid. lon < - 75.0 \<or> (lat > 35.0 \<and> lon < - 70.0))"
  using create_ocean_grid_rows unfolding in_ocean_def by fastforce

theorem create_ocean_grid_ocean_only_witness:
  "\<exists>grid. create_ocean_grid = Some (Inr grid)
      \<and> (24, - 82) \<in> set grid
      \<and> ((- 82 :: real) < - 75.0 \<or> ((24 :: real) > 35.0 \<and> (- 82 :: real) < - 70.0))"
proof -
  from create_ocean_grid_ocean_only obtain grid where
    g: "create_ocean_grid = Some (Inr grid)"
       "\<forall>(lat, lon) \<in> set grid. lon < - 75.0 \<or> (lat > 35.0 \<and> lon < - 70.0)" by blast
  from create_ocean_grid_first obtain rest where
    "create_ocean_grid = Some (Inr ((24, - 82) # rest))" by blast
  with g(1) have "grid = (24, - 82) # rest" by (metis option.inject sum.inject(2))
  then have m: "(24, - 82) \<in> set grid" by simp
  with g(2) have "(- 82 :: real) < - 75.0 \<or> ((24 :: real) > 35.0 \<and> (- 82 :: real) < - 70.0)"
    by fastforce
  with g(1) m show ?thesis by blast
qed

subsection \<open>Selecting the current value\<close>

lemma covers_iff:
  "covers lib now item \<longleftrightarrow>
     (\<exists>s e. parse_valid_time lib (get_validTime item) = Inr (Some s, Some e)
        \<and> dt_le s now = Inr True \<and> dt_lt now e = Inr True)"
  by (simp add: covers_def resolved_def split: sum.split option.split prod.split)

lemma find_current_value_covers:
  assumes "covers lib now item"
  shows "find_current_value lib now (item # rest) = Inr (entry_value item)"
proof -
  from assms obtain s e where
    "parse_valid_time lib (get_validTime item) = Inr (Some s, Some e)"
    "dt_le s now = Inr True" "dt_lt now e = Inr True"
    unfolding covers_iff by blast
  then show ?thesis by simp
qed

lemma find_current_value_skip:
  assumes "\<not> covers lib now item" "\<not> raises lib now item"
  shows "find_current_value lib now (item # rest) = find_current_value lib now rest"
proof (cases "parse_valid_time lib (get_validTime item)")
  case (Inl e)
  with assms(2) show ?thesis by (simp add: raises_def)
next
  case (Inr p)
  obtain a b where p: "p = (a, b)" by (cases p)
  show ?thesis
  proof (cases "\<exists>s e. p = (Some s, Some e)")
    case False
    with Inr p show ?thesis by (cases a; cases b) simp_all
  next
    case True
    then obtain s e where se: "p = (Some s, Some e)" by blast
    from assms(2) Inr se have nr: "\<not> isl (dt_le s now)"
      "\<not> (dt_le s now = Inr True \<and> isl (dt_lt now e))"
      by (simp_all add: raises_def)
    from assms(1) Inr se have nc: "\<not> (dt_le s now = Inr True \<and> dt_lt now e = Inr True)"
      by (simp add: covers_iff)
    from nr(1) obtain b1 where b1: "dt_le s now = Inr b1" by (cases "dt_le s now") simp_all
    show ?thesis
    proof (cases b1)
      case False
      with Inr se b1 show ?thesis by simp
    next
      case True
      with nr(2) b1 obtain b2 where b2: "dt_lt now e = Inr b2"
        by (cases "dt_lt now e") simp_all
      with nc b1 True have "\<not> b2" by simp
      with Inr se b1 True b2 show ?thesis by simp
    qed
  qed
qed

text \<open>
  On a series in which no entry before the first covering one raises,
  \<^verbatim>\<open>find_current_value\<close> returns what the specification selects.
\<close>

lemma find_current_value_select:
  "\<forall>item \<in> set (takeWhile (\<lambda>i. \<not> covers lib now i) series). \<not> raises lib now item \<Longrightarrow>
   find_current_value lib now series = Inr (select_current lib now series)"
proof (induction series)
  case Nil
  then show ?case by (simp add: select_current_def)
next
  case (Cons item rest)
  show ?case
  proof (cases "covers lib now item")
    case True
    then show ?thesis
      by (simp add: find_current_value_covers select_current_def del: find_current_value.simps)
  next
    case False
    with Cons.prems have nr: "\<not> raises lib now item"
      and rest: "\<forall>i \<in> set (takeWhile (\<lambda>i. \<not> covers lib now i) rest). \<not> raises lib now i"
      by simp_all
    from Cons.IH[OF rest] False nr show ?thesis
      by (simp add: find_current_value_skip select_current_def del: find_current_value.simps)
  qed
qed

lemma dt_le_refl: "dt_le s s = Inr True"
  by (cases s) simp_all

lemma dt_lt_irrefl: "dt_lt s s = Inr False"
  by (cases s) simp_all

lemma dt_lt_imp_le: "dt_lt a b = Inr True \<Longrightarrow> dt_le a b = Inr True"
  by (cases a; cases b) simp_all

lemma parse_valid_time_ordered:
  assumes "parse_valid_time lib vt = Inr (Some s, Some e)"
  shows "dt_lt s e = Inr True"
proof -
  from parse_valid_time_concrete[OF assms] obtain g d where
    d: "decoded_duration lib g = Inr d" "d \<noteq> 0" "dt_add s d = Inr e" by blast
  from decoded_duration_nonneg[OF d(1)] d(2) have "0 < d" by simp
  with d(3) show ?thesis by (rule dt_add_after)
qed

text \<open>The interval is closed at its start and open at its end.\<close>

lemma find_current_value_boundaries:
  assumes "parse_valid_time lib (get_validTime item) = Inr (Some s, Some e)"
  shows "find_current_value lib s [item] = Inr (entry_value item)"
    and "find_current_value lib e [item] = Inr None"
proof -
  from assms have lt: "dt_lt s e = Inr True" by (rule parse_valid_time_ordered)
  show "find_current_value lib s [item] = Inr (entry_value item)"
    using assms lt by (simp add: dt_le_refl)
  show "find_current_value lib e [item] = Inr None"
    using assms lt by (simp add: dt_lt_imp_le dt_lt_irrefl)
qed

lemma parse_naive_PT6H:
  "parse_valid_time sample_lib (ustr ''2024-01-01T00:00:00/PT6H'') =
     Inr (Some (Naive 63839664000000000), Some (Naive 63839685600000000))"
  by (simp add: pvt_defs iso_defs)

lemmas entry_evals =
  get_validTime_def covers_def resolved_def raises_def select_current_def
  parse_P0D parse_PT6H parse_naive_PT6H

text \<open>
  C1 at a series the code fails on. The first entry has a timestamp without an offset,
  valid from 00:00 for six hours; the second entry covers the reference instant, 01:00
  UTC, and has the value 2. The specification selects 2. In the code the comparison of
  the naive start with the aware reference raises \<^verbatim>\<open>TypeError\<close>, which leaves
  \<^verbatim>\<open>find_current_value\<close>.
\<close>

theorem find_current_value_naive_entry:
  "find_current_value sample_lib (Aware 63839667600000000 0)
      [\<lparr>validTime = Some (ustr ''2024-01-01T00:00:00/PT6H''), entry_value = Some (PyInt 1)\<rparr>,
       \<lparr>validTime = Some (ustr ''2024-01-01T00:00:00Z/PT6H''), entry_value = Some (PyInt 2)\<rparr>]
     = Inl TypeError
   \<and> select_current sample_lib (Aware 63839667600000000 0)
      [\<lparr>validTime = Some (ustr ''2024-01-01T00:00:00/PT6H''), entry_value = Some (PyInt 1)\<rparr>,
       \<lparr>validTime = Some (ustr ''2024-01-01T00:00:00Z/PT6H''), entry_value = Some (PyInt 2)\<rparr>]
     = Some (PyInt 2)"
  by (simp add: entry_evals)

subsection \<open>The cases of \<^verbatim>\<open>parse_valid_time\<close>\<close>

lemma split_slash_append:
  "cp CHR ''/'' \<notin> set l \<Longrightarrow> split_slash (l @ cp CHR ''/'' # r) = (l, r)"
  by (induction l) (auto simp: split_slash_def)

lemma parse_valid_time_no_slash:
  "cp CHR ''/'' \<notin> set vt \<Longrightarrow> parse_valid_time lib vt = Inr (None, None)"
  by (simp add: parse_valid_time_def)

lemma parse_valid_time_bad_start:
  "cp CHR ''/'' \<notin> set l \<Longrightarrow> fromisoformat lib (replace_Z l) = None \<Longrightarrow>
   parse_valid_time lib (l @ cp CHR ''/'' # r) = Inr (None, None)"
  using split_slash_append[of l r] by (simp add: parse_valid_time_def)

lemma parse_valid_time_open_ended:
  "cp CHR ''/'' \<notin> set l \<Longrightarrow> fromisoformat lib (replace_Z l) = Some st \<Longrightarrow>
   VALID_TIME_DURATION_fullmatch lib r = None \<Longrightarrow>
   parse_valid_time lib (l @ cp CHR ''/'' # r) = Inr (Some st, None)"
  using split_slash_append[of l r] by (simp add: parse_valid_time_def)

lemma parse_valid_time_zero:
  "cp CHR ''/'' \<notin> set l \<Longrightarrow> VALID_TIME_DURATION_fullmatch lib r = Some g \<Longrightarrow>
   decoded_duration lib g = Inr 0 \<Longrightarrow>
   parse_valid_time lib (l @ cp CHR ''/'' # r) = Inr (None, None)"
  using split_slash_append[of l r]
  by (simp add: parse_valid_time_def split: option.split del: decoded_duration.simps)

lemma parse_valid_time_unusable_iff:
  assumes "parse_valid_time lib vt = Inr r"
  shows "\<not> usable r \<longleftrightarrow>
     cp CHR ''/'' \<notin> set vt
     \<or> fromisoformat lib (replace_Z (fst (split_slash vt))) = None
     \<or> VALID_TIME_DURATION_fullmatch lib (snd (split_slash vt)) = None
     \<or> (\<exists>g. VALID_TIME_DURATION_fullmatch lib (snd (split_slash vt)) = Some g
           \<and> decoded_duration lib g = Inr 0)"
  using assms
  by (auto simp: parse_valid_time_def usable_def Let_def case_prod_unfold
           simp del: decoded_duration.simps
           split: if_splits option.splits sum.splits)

lemma find_current_value_no_end:
  "parse_valid_time lib (get_validTime item) = Inr (st, None) \<Longrightarrow>
   find_current_value lib now (item # rest) = find_current_value lib now rest"
  by (cases st) simp_all

text \<open>
  C2, as the code has it. Whenever \<^verbatim>\<open>parse_valid_time\<close> returns, its result is
  unusable in exactly these cases: the string has no slash, the start does not parse, the
  right part does not match the pattern, or the duration decodes to zero. A string
  without a slash, a zero duration and a start that does not parse give
  \<open>(None, None)\<close>; a right part that does not match, with a start that parses, gives
  the start and no end. An entry whose result has no end is skipped by
  \<^verbatim>\<open>find_current_value\<close>.
\<close>

theorem parse_valid_time_cases:
  "(parse_valid_time lib vt = Inr res \<longrightarrow>
      (\<not> usable res \<longleftrightarrow>
         cp CHR ''/'' \<notin> set vt
         \<or> fromisoformat lib (replace_Z (fst (split_slash vt))) = None
         \<or> VALID_TIME_DURATION_fullmatch lib (snd (split_slash vt)) = None
         \<or> (\<exists>g. VALID_TIME_DURATION_fullmatch lib (snd (split_slash vt)) = Some g
               \<and> decoded_duration lib g = Inr 0)))
   \<and> (cp CHR ''/'' \<notin> set vt \<longrightarrow> parse_valid_time lib vt = Inr (None, None))
   \<and> (cp CHR ''/'' \<notin> set l \<and> VALID_TIME_DURATION_fullmatch lib r = Some g0
        \<and> decoded_duration lib g0 = Inr 0
      \<longrightarrow> parse_valid_time lib (l @ cp CHR ''/'' # r) = Inr (None, None))
   \<and> (cp CHR ''/'' \<notin> set l \<and> fromisoformat lib (replace_Z l) = None
      \<longrightarrow> parse_valid_time lib (l @ cp CHR ''/'' # r) = Inr (None, None))
   \<and> (cp CHR ''/'' \<notin> set l \<and> fromisoformat lib (replace_Z l) = Some start_dt
        \<and> VALID_TIME_DURATION_fullmatch lib r = None
      \<longrightarrow> parse_valid_time lib (l @ cp CHR ''/'' # r) = Inr (Some start_dt, None))
   \<and> (parse_valid_time lib (get_validTime item) = Inr (st, None)
      \<longrightarrow> find_current_value lib now (item # rest) = find_current_value lib now rest)"
  using parse_valid_time_unusable_iff[of lib vt res]
        parse_valid_time_no_slash[of vt lib]
        parse_valid_time_zero[of l lib r g0]
        parse_valid_time_bad_start[of l lib r]
        parse_valid_time_open_ended[of l lib start_dt r]
        find_current_value_no_end[of lib item st now rest]
  by blast

lemma replace_Z_2024:
  "replace_Z (ustr ''2024-01-01T00:00:00Z'') = ustr ''2024-01-01T00:00:00+00:00''"
  by (simp add: replace_Z_def ustr_def)

lemma iso_yesterday: "fromisoformat sample_lib (replace_Z (ustr ''yesterday'')) = None"
  by (simp add: replace_Z_def fromisoformat_basic_def sample_lib_def ustr_def)

lemma fullmatch_6_hours: "VALID_TIME_DURATION_fullmatch sample_lib (ustr ''6 hours'') = None"
  by (simp add: pvt_defs)

lemma parse_6_hours:
  "parse_valid_time sample_lib (ustr ''2024-01-01T00:00:00Z/6 hours'') =
     Inr (Some (Aware 63839664000000000 0), None)"
  by (simp add: pvt_defs iso_defs)

theorem parse_valid_time_cases_witness:
  "usable (Some (Aware 63839664000000000 0), Some (Aware 63839685600000000 0))
   \<and> parse_valid_time sample_lib (ustr ''tomorrow'') = Inr (None, None)
   \<and> parse_valid_time sample_lib (ustr ''2024-01-01T00:00:00Z/P0D'') = Inr (None, None)
   \<and> parse_valid_time sample_lib (ustr ''yesterday/PT6H'') = Inr (None, None)
   \<and> parse_valid_time sample_lib (ustr ''2024-01-01T00:00:00Z/6 hours'')
        = Inr (Some (Aware 63839664000000000 0), None)
   \<and> find_current_value sample_lib (Aware 63839667600000000 0)
        [\<lparr>validTime = Some (ustr ''2024-01-01T00:00:00Z/6 hours''), entry_value = Some (PyInt 3)\<rparr>]
        = Inr None"
proof -
  let ?l = "ustr ''2024-01-01T00:00:00Z''"
  let ?st = "Aware 63839664000000000 0"
  let ?en = "Aware 63839685600000000 0"
  let ?vt = "ustr ''2024-01-01T00:00:00Z/PT6H''"
  let ?item = "\<lparr>validTime = Some (ustr ''2024-01-01T00:00:00Z/6 hours''),
                entry_value = Some (PyInt 3)\<rparr>"
  have sl: "cp CHR ''/'' \<notin> set ?l" "cp CHR ''/'' \<notin> set (ustr ''yesterday'')"
    "cp CHR ''/'' \<notin> set (ustr ''tomorrow'')" "cp CHR ''/'' \<in> set ?vt"
    by (simp_all add: ustr_def)
  have st: "fromisoformat sample_lib (replace_Z ?l) = Some ?st"
    by (simp add: replace_Z_2024 iso_2024_utc sample_lib_def)
  have z: "VALID_TIME_DURATION_fullmatch sample_lib (ustr ''P0D'')
             = Some (Some (ustr ''0''), None, None, None)"
    by (simp add: pvt_defs)
  have sp: "split_slash ?vt = (?l, ustr ''PT6H'')"
    by (simp add: split_slash_def ustr_def)
  have m: "VALID_TIME_DURATION_fullmatch sample_lib (ustr ''PT6H'')
             = Some (None, Some (ustr ''6''), None, None)"
    by (simp add: pvt_defs)
  have dd: "decoded_duration sample_lib (None, Some (ustr ''6''), None, None) = Inr 21600000000"
    by (simp add: pvt_defs)
  from parse_valid_time_cases[of sample_lib ?vt "(Some ?st, Some ?en)"] parse_PT6H sl st sp m dd
  have u: "usable (Some ?st, Some ?en)"
    by (simp del: decoded_duration.simps)
  from parse_valid_time_cases[of sample_lib "ustr ''tomorrow''"] sl
  have a: "parse_valid_time sample_lib (ustr ''tomorrow'') = Inr (None, None)" by blast
  from parse_valid_time_cases[of sample_lib _ _ ?l "ustr ''P0D''" "(Some (ustr ''0''), None, None, None)"]
       sl z decoded_P0D
  have b: "parse_valid_time sample_lib (?l @ cp CHR ''/'' # ustr ''P0D'') = Inr (None, None)"
    by blast
  from parse_valid_time_cases[of sample_lib _ _ "ustr ''yesterday''" "ustr ''PT6H''"]
       sl iso_yesterday
  have c: "parse_valid_time sample_lib (ustr ''yesterday'' @ cp CHR ''/'' # ustr ''PT6H'')
             = Inr (None, None)"
    by blast
  from parse_valid_time_cases[of sample_lib _ _ ?l "ustr ''6 hours''" _ ?st]
       sl st fullmatch_6_hours
  have d: "parse_valid_time sample_lib (?l @ cp CHR ''/'' # ustr ''6 hours'')
             = Inr (Some ?st, None)"
    by blast
  have "parse_valid_time sample_lib (get_validTime ?item) = Inr (Some ?st, None)"
    by (simp add: get_validTime_def parse_6_hours)
  with parse_valid_time_cases[of sample_lib _ _ _ _ _ _ ?item "Some ?st"
          "Aware 63839667600000000 0" "[]"]
  have f: "find_current_value sample_lib (Aware 63839667600000000 0) [?item]
             = find_current_value sample_lib (Aware 63839667600000000 0) []"
    by blast
  from u a b c d f show ?thesis by (simp add: ustr_def)
qed

text \<open>
  C2 as stated fails on a timestamp alone, with no slash and no duration: the start
  would parse, nothing decodes to zero, and the result is \<open>(None, None)\<close>, neither
  usable nor the open-ended interval of a right part that does not match.
\<close>

theorem parse_valid_time_no_slash_counterexample:
  "parse_valid_time sample_lib (ustr ''2024-01-01T00:00:00+00:00'') = Inr (None, None)
   \<and> fromisoformat sample_lib (replace_Z (ustr ''2024-01-01T00:00:00+00:00''))
        = Some (Aware 63839664000000000 0)
   \<and> cp CHR ''/'' \<notin> set (ustr ''2024-01-01T00:00:00+00:00'')"
  by (simp add: pvt_defs iso_defs)

subsection \<open>Runs of the endpoint\<close>

lemma points_requests_append:
  "points_requests (a @ b) = points_requests a @ points_requests b"
  by (induction a rule: points_requests.induct) simp_all

lemma get_wind_data_try_sent:
  "\<exists>extra. snd (get_wind_data_try lib prov lat lon sent) = sent @ PointsGet lat lon # extra
      \<and> points_requests extra = []"
  by (auto simp: get_wind_data_try_def Let_def split: sum.split option.split)

lemma get_wind_data_sent:
  "points_requests (snd (get_wind_data lib prov lat lon sent))
     = points_requests sent @ [(lat, lon)]"
proof -
  from get_wind_data_try_sent[of lib prov lat lon sent] obtain extra where
    e: "snd (get_wind_data_try lib prov lat lon sent) = sent @ PointsGet lat lon # extra"
       "points_requests extra = []" by blast
  have "snd (get_wind_data lib prov lat lon sent)
          = snd (get_wind_data_try lib prov lat lon sent)"
    by (simp add: get_wind_data_def split: prod.split sum.split)
  with e show ?thesis by (simp add: points_requests_append)
qed

text \<open>One step of the loop and of its trace, for an index that is fetched.\<close>

lemma wind_loop_fetch:
  assumes "i mod 5 = 0" "get_wind_data lib prov lat lon sent = (r, sent')"
  shows "wind_loop lib prov ((i, lat, lon) # rest) feats sent =
           (case feature_result (lat, lon, r) of
              None \<Rightarrow> wind_loop lib prov rest feats sent'
            | Some (Inl e) \<Rightarrow> (Inl e, sent')
            | Some (Inr f) \<Rightarrow> wind_loop lib prov rest (feats @ [f]) sent')"
  using assms by simp

lemma fetch_trace_fetch:
  assumes "i mod 5 = 0" "get_wind_data lib prov lat lon sent = (r, sent')"
  shows "fetch_trace lib prov ((i, lat, lon) # rest) sent =
           (lat, lon, r) #
             (case feature_result (lat, lon, r) of
                Some (Inl e) \<Rightarrow> []
              | _ \<Rightarrow> fetch_trace lib prov rest sent')"
  using assms by simp

lemma sampled_Cons:
  "sampled ((i, p) # xs) = (if i mod 5 = 0 then p # sampled xs else sampled xs)"
  by (simp add: sampled_def)

text \<open>The lookups of the loop are those of its trace, a prefix of the sampled points.\<close>

lemma wind_loop_requests:
  "points_requests (snd (wind_loop lib prov xs feats sent))
     = points_requests sent @ map coordinate_of (fetch_trace lib prov xs sent)"
proof (induction xs arbitrary: feats sent)
  case Nil
  then show ?case by simp
next
  case (Cons x xs)
  obtain i lat lon where x: "x = (i, lat, lon)" by (cases x)
  show ?case
  proof (cases "i mod 5 = 0")
    case False
    with x Cons.IH show ?thesis by simp
  next
    case True
    obtain r sent' where g: "get_wind_data lib prov lat lon sent = (r, sent')"
      by (cases "get_wind_data lib prov lat lon sent")
    from get_wind_data_sent[of lib prov lat lon sent] g
    have s: "points_requests sent' = points_requests sent @ [(lat, lon)]" by simp
    show ?thesis
      unfolding x wind_loop_fetch[OF True g] fetch_trace_fetch[OF True g]
      using s Cons.IH
      by (simp add: coordinate_of_def split: option.split sum.split)
  qed
qed

lemma fetch_trace_prefix:
  "\<exists>k. map coordinate_of (fetch_trace lib prov xs sent) = take k (sampled xs)"
proof (induction xs arbitrary: sent)
  case Nil
  then show ?case by simp
next
  case (Cons x xs)
  obtain i lat lon where x: "x = (i, lat, lon)" by (cases x)
  show ?case
  proof (cases "i mod 5 = 0")
    case False
    with x Cons.IH show ?thesis by (simp add: sampled_Cons)
  next
    case True
    obtain r sent' where g: "get_wind_data lib prov lat lon sent = (r, sent')"
      by (cases "get_wind_data lib prov lat lon sent")
    from Cons.IH[of sent'] obtain k where
      k: "map coordinate_of (fetch_trace lib prov xs sent') = take k (sampled xs)" by blast
    show ?thesis
    proof (cases "\<exists>e. feature_result (lat, lon, r) = Some (Inl e)")
      case True
      then have "map coordinate_of (fetch_trace lib prov (x # xs) sent)
                   = take (Suc 0) (sampled (x # xs))"
        unfolding x fetch_trace_fetch[OF \<open>i mod 5 = 0\<close> g]
        using \<open>i mod 5 = 0\<close> by (auto simp: coordinate_of_def sampled_Cons)
      then show ?thesis by blast
    next
      case False
      then have "map coordinate_of (fetch_trace lib prov (x # xs) sent)
                   = take (Suc k) (sampled (x # xs))"
        unfolding x fetch_trace_fetch[OF \<open>i mod 5 = 0\<close> g]
        using \<open>i mod 5 = 0\<close> k
        by (auto simp: coordinate_of_def sampled_Cons split: option.split sum.split)
      then show ?thesis by blast
    qed
  qed
qed

text \<open>What the loop returns, in terms of its trace.\<close>

lemma wind_loop_features:
  "fst (wind_loop lib prov xs feats sent) = Inr fs \<Longrightarrow>
   fs = feats @ List.map_filter feature_of (fetch_trace lib prov xs sent)
   \<and> map coordinate_of (fetch_trace lib prov xs sent) = sampled xs"
proof (induction xs arbitrary: feats sent)
  case Nil
  then show ?case by (simp add: sampled_def)
next
  case (Cons x xs)
  obtain i lat lon where x: "x = (i, lat, lon)" by (cases x)
  show ?case
  proof (cases "i mod 5 = 0")
    case False
    with x Cons show ?thesis by (simp add: sampled_Cons)
  next
    case True
    obtain r sent' where g: "get_wind_data lib prov lat lon sent = (r, sent')"
      by (cases "get_wind_data lib prov lat lon sent")
    show ?thesis
    proof (cases "feature_result (lat, lon, r)")
      case None
      with Cons.prems have "fst (wind_loop lib prov xs feats sent') = Inr fs"
        unfolding x wind_loop_fetch[OF True g] by simp
      from Cons.IH[OF this] None True show ?thesis
        unfolding x fetch_trace_fetch[OF True g]
        by (simp add: feature_of_def coordinate_of_def sampled_Cons)
    next
      case (Some res)
      show ?thesis
      proof (cases res)
        case (Inl e)
        with Some Cons.prems show ?thesis
          unfolding x wind_loop_fetch[OF True g] by simp
      next
        case (Inr f)
        with Some Cons.prems have "fst (wind_loop lib prov xs (feats @ [f]) sent') = Inr fs"
          unfolding x wind_loop_fetch[OF True g] by simp
        from Cons.IH[OF this] Some Inr True show ?thesis
          unfolding x fetch_trace_fetch[OF True g]
          by (simp add: feature_of_def coordinate_of_def sampled_Cons)
      qed
    qed
  qed
qed




lemma sampled_at_most_20:
  "length (sampled (enumerate 0 (take 100 grid))) \<le> 20"
proof -
  define xs where "xs = take 100 grid"
  define n where "n = length xs"
  have n: "n \<le> 100" by (simp add: n_def xs_def)
  have "filter (\<lambda>i. i mod 5 = 0) (map fst (enumerate 0 xs))
          = map fst (filter (\<lambda>(i, p). i mod 5 = 0) (enumerate 0 xs))"
    by (simp only: filter_map comp_def case_prod_unfold)
  then have "length (sampled (enumerate 0 xs))
          = length (filter (\<lambda>i. i mod 5 = 0) (map fst (enumerate 0 xs)))"
    by (simp only: sampled_def length_map)
  also have "\<dots> = length (filter (\<lambda>i. i mod 5 = 0) [0..<n])"
    by (simp only: map_fst_enumerate add_0 n_def)
  also have "\<dots> = card (set (filter (\<lambda>i. i mod 5 = 0) [0..<n]))"
    by (simp only: distinct_card distinct_filter distinct_upt)
  also have "\<dots> \<le> card ((\<lambda>k. 5 * k) ` {..<20::nat})"
  proof (rule card_mono)
    show "finite ((\<lambda>k. 5 * k) ` {..<20::nat})" by simp
    show "set (filter (\<lambda>i. i mod 5 = 0) [0..<n]) \<subseteq> (\<lambda>k. 5 * k) ` {..<20::nat}"
    proof
      fix i assume "i \<in> set (filter (\<lambda>i. i mod 5 = 0) [0..<n])"
      with n have "i < 100" "i mod 5 = 0" by simp_all
      then have "i = 5 * (i div 5)" "i div 5 < 20" by presburger+
      then show "i \<in> (\<lambda>k. 5 * k) ` {..<20::nat}" by blast
    qed
  qed
  also have "\<dots> \<le> card {..<20::nat}" by (rule card_image_le) simp
  finally show ?thesis by (simp add: xs_def)
qed

lemma ocean_wind_data_returns:
  "\<exists>grid. create_ocean_grid = Some (Inr grid)
      \<and> ocean_wind_data lib prov sent = Some (collect_features lib prov grid sent)
      \<and> run_trace lib prov sent = fetch_trace lib prov (enumerate 0 (take 100 grid)) sent"
proof -
  from create_ocean_grid_rows obtain grid where g: "create_ocean_grid = Some (Inr grid)" by blast
  have "ocean_wind_data lib prov sent = Some (collect_features lib prov grid sent)"
    by (simp add: ocean_wind_data_def g)
  moreover have "run_trace lib prov sent
      = fetch_trace lib prov (enumerate 0 (take 100 grid)) sent"
    by (simp add: run_trace_def g)
  ultimately show ?thesis using g by blast
qed

text \<open>The answer for a grid, in terms of the trace.\<close>

lemma collect_features_requests:
  "\<exists>k. points_requests (snd (collect_features lib prov grid sent))
          = points_requests sent @ take k (sampled (enumerate 0 (take 100 grid)))"
proof -
  have "snd (collect_features lib prov grid sent)
          = snd (wind_loop lib prov (enumerate 0 (take 100 grid)) [] sent)"
    by (simp add: collect_features_def split: prod.split sum.split)
  with wind_loop_requests[of lib prov "enumerate 0 (take 100 grid)" "[]" sent]
       fetch_trace_prefix[of lib prov "enumerate 0 (take 100 grid)" sent]
  show ?thesis by auto
qed

lemma collect_features_ok:
  assumes "fst (collect_features lib prov grid sent) = FeatureCollection feats"
  shows "feats = List.map_filter feature_of
                   (fetch_trace lib prov (enumerate 0 (take 100 grid)) sent)"
    and "points_requests (snd (collect_features lib prov grid sent))
           = points_requests sent @ sampled (enumerate 0 (take 100 grid))"
proof -
  let ?xs = "enumerate 0 (take 100 grid)"
  obtain res sent' where w: "wind_loop lib prov ?xs [] sent = (res, sent')"
    by (cases "wind_loop lib prov ?xs [] sent")
  with assms have r: "res = Inr feats"
    by (cases res) (simp_all add: collect_features_def)
  with w have "fst (wind_loop lib prov ?xs [] sent) = Inr feats" by simp
  from wind_loop_features[OF this]
  have f: "feats = List.map_filter feature_of (fetch_trace lib prov ?xs sent)"
    and c: "map coordinate_of (fetch_trace lib prov ?xs sent) = sampled ?xs" by simp_all
  show "feats = List.map_filter feature_of (fetch_trace lib prov ?xs sent)" by (rule f)
  have "snd (collect_features lib prov grid sent) = snd (wind_loop lib prov ?xs [] sent)"
    by (simp add: collect_features_def split: prod.split sum.split)
  with wind_loop_requests[of lib prov ?xs "[]" sent] c
  show "points_requests (snd (collect_features lib prov grid sent))
           = points_requests sent @ sampled ?xs" by simp
qed



text \<open>
  C4. For every grid, the points the run looks up are a prefix of the points of the first
  100 grid points whose index is a multiple of 5, in grid order, and these are at most 20.
  When the run answers with a feature collection, it has looked up all of them. The
  endpoint returns, and it has made at most 20 points lookups.
\<close>

theorem fetches_bounded:
  "(\<exists>k. points_requests (snd (collect_features lib prov grid_points sent))
          = points_requests sent @ take k (sampled (enumerate 0 (take 100 grid_points))))
   \<and> length (sampled (enumerate 0 (take 100 grid_points))) \<le> 20
   \<and> (fst (collect_features lib prov grid_points sent) = FeatureCollection feats
       \<longrightarrow> points_requests (snd (collect_features lib prov grid_points sent))
             = points_requests sent @ sampled (enumerate 0 (take 100 grid_points)))
   \<and> (\<exists>res sent'. ocean_wind_data lib prov sent = Some (res, sent')
         \<and> length (points_requests sent') \<le> length (points_requests sent) + 20)"
proof -
  from ocean_wind_data_returns[of lib prov sent] obtain grid where
    g: "ocean_wind_data lib prov sent = Some (collect_features lib prov grid sent)"
    by blast
  from collect_features_requests[of lib prov grid sent] obtain k where
    k: "points_requests (snd (collect_features lib prov grid sent))
          = points_requests sent @ take k (sampled (enumerate 0 (take 100 grid)))" by blast
  have "length (points_requests (snd (collect_features lib prov grid sent)))
          \<le> length (points_requests sent) + 20"
    using sampled_at_most_20[of grid] by (simp add: k)
  with g have "\<exists>res sent'. ocean_wind_data lib prov sent = Some (res, sent')
         \<and> length (points_requests sent') \<le> length (points_requests sent) + 20"
    by (cases "collect_features lib prov grid sent") auto
  with collect_features_requests[of lib prov grid_points sent]
       sampled_at_most_20[of grid_points]
       collect_features_ok(2)[of lib prov grid_points sent feats]
  show ?thesis by blast
qed

lemmas fetch_defs =
  get_wind_data_def get_wind_data_try_def grid_url_of_def wind_of_grid_def response_json_def
  subscript_def get_values_def get_uom_def points_ok_def speed_series_def

lemma get_wind_data_down:
  "get_wind_data lib prov_down lat lon sent = (None, sent @ [PointsGet lat lon])"
  by (simp add: fetch_defs prov_down_def)

theorem fetches_bounded_witness:
  "fst (collect_features sample_lib prov_down [(24, - 82), (25, - 81)] []) = FeatureCollection []
   \<and> points_requests (snd (collect_features sample_lib prov_down [(24, - 82), (25, - 81)] []))
       = [(24, - 82)]
   \<and> sampled (enumerate 0 (take 100 [(24, - 82), (25, - 81)])) = [(24, - 82)]"
proof -
  have r: "fst (collect_features sample_lib prov_down [(24, - 82), (25, - 81)] [])
             = FeatureCollection []"
    by (simp add: collect_features_def get_wind_data_down feature_result_def)
  have s: "sampled (enumerate 0 (take 100 [(24, - 82), (25, - 81)])) = [(24, - 82)]"
    by (simp add: sampled_def)
  from fetches_bounded[of sample_lib prov_down "[(24, - 82), (25, - 81)]" "[]" "[]"] r s
  show ?thesis by simp
qed



















end
